theory Spec2Isabelle
  imports Complex_Main
begin

section \<open>Data model\<close>

text \<open>
  The two tables of the migration (\<^verbatim>\<open>CREATE TABLE "Wallet"\<close>, \<^verbatim>\<open>CREATE TABLE "Transaction"\<close>).
  The columns \<^verbatim>\<open>id\<close>, \<^verbatim>\<open>createdAt\<close> and \<^verbatim>\<open>updatedAt\<close> are never read by the wallet
  service's write paths and are left out. A \<^verbatim>\<open>DOUBLE PRECISION\<close> column or a JavaScript
  number is the rational it denotes; every arithmetic operation of the code rounds its
  exact result to the nearest double (section Numbers). A number that comes from outside is
  a double. Nullable columns are options; the JSONB \<^verbatim>\<open>metadata\<close> object is an
  association list.
\<close>

type_synonym number = rat

record wallet =
  userId :: string
  walletNumber :: string
  balance :: number

record transaction =
  t_userId :: string
  reference :: string
  amount :: number
  t_type :: string
  status :: string
  paystackReference :: "string option"
  gatewayResponse :: "string option"
  metadata :: "(string \<times> string) list option"
  completedAt :: "nat option"

record state =
  wallets :: "wallet list"
  transactions :: "transaction list"

text \<open>Exceptions of the source, and the errors the Prisma client raises.\<close>

datatype error =
    BadRequestException string
  | NotFoundException string
  | UniqueConstraintViolation
  | RecordNotFound
  | SyntaxError

section \<open>Numbers\<close>

text \<open>
  IEEE 754 binary64 with the default rounding (to nearest, ties to even), which both
  JavaScript and the \<^verbatim>\<open>float8\<close> arithmetic of the database use: \<open>double x\<close> is the double
  nearest to the exact value \<open>x\<close>. The magnitude is scaled by powers of two until it lies
  in \<open>[2^52, 2^53)\<close> (or the exponent reaches that of the subnormal numbers, \<open>-1074\<close>), rounded
  to an integer, and scaled back; \<open>u\<close> is \<open>2^e\<close>. Results of magnitude \<open>2^1024\<close> and above,
  which the code turns into \<^verbatim>\<open>Infinity\<close>, are outside the model: the scaling stops at the
  largest exponent, \<open>971\<close>. \<open>2^53 = 9007199254740992\<close> and \<open>2^52 = 4503599627370496\<close>.
\<close>

definition roundHalfEven :: "rat \<Rightarrow> int" where
  "roundHalfEven y =
     (if y - of_int \<lfloor>y\<rfloor> < 1 / 2 then \<lfloor>y\<rfloor>
      else if 1 / 2 < y - of_int \<lfloor>y\<rfloor> then \<lfloor>y\<rfloor> + 1
      else if even \<lfloor>y\<rfloor> then \<lfloor>y\<rfloor> else \<lfloor>y\<rfloor> + 1)"

function mantDown :: "rat \<Rightarrow> int \<Rightarrow> rat \<Rightarrow> rat \<times> int \<times> rat" where
  "mantDown y e u =
     (if 9007199254740992 \<le> y \<and> e < 971 then mantDown (y / 2) (e + 1) (u * 2) else (y, e, u))"
  by pat_completeness auto
termination
  by (relation "measure (\<lambda>(y, e, u). nat (971 - e))") auto

function mantUp :: "rat \<Rightarrow> int \<Rightarrow> rat \<Rightarrow> rat \<times> int \<times> rat" where
  "mantUp y e u =
     (if y < 4503599627370496 \<and> - 1074 < e then mantUp (y * 2) (e - 1) (u / 2) else (y, e, u))"
  by pat_completeness auto
termination
  by (relation "measure (\<lambda>(y, e, u). nat (e + 1074))") auto

declare mantDown.simps [simp del] mantUp.simps [simp del]

definition double :: "rat \<Rightarrow> rat" where
  "double x =
     (if x = 0 then 0
      else (case mantDown \<bar>x\<bar> 0 1 of
              (y, e, u) \<Rightarrow>
                (case mantUp y e u of
                   (y', e', u') \<Rightarrow> sgn x * of_int (roundHalfEven y') * u')))"

section \<open>Strings\<close>

definition digit_char :: "nat \<Rightarrow> char" where
  "digit_char d = ''0123456789'' ! (d mod 10)"

text \<open>\<^verbatim>\<open>Number.prototype.toString\<close> on a non-negative integer such as \<^verbatim>\<open>Date.now()\<close>.\<close>

fun string_of_nat :: "nat \<Rightarrow> string" where
  "string_of_nat n =
     (if n < 10 then [digit_char n] else string_of_nat (n div 10) @ [digit_char (n mod 10)])"

declare string_of_nat.simps [simp del]

text \<open>\<^verbatim>\<open>s.startsWith(p)\<close>\<close>

definition startsWith :: "string \<Rightarrow> string \<Rightarrow> bool" where
  "startsWith s p = (take (length p) s = p)"

text \<open>\<^verbatim>\<open>s.slice(-n)\<close>\<close>

definition slice_last :: "nat \<Rightarrow> string \<Rightarrow> string" where
  "slice_last n s = drop (length s - n) s"

text \<open>\<^verbatim>\<open>s.padStart(n, '0')\<close>\<close>

definition padStart :: "nat \<Rightarrow> string \<Rightarrow> string" where
  "padStart n s = replicate (n - length s) (CHR ''0'') @ s"

section \<open>Table operations\<close>

text \<open>
  \<^verbatim>\<open>findUnique\<close> and \<^verbatim>\<open>findFirst\<close> are \<^const>\<open>find\<close> on the table in insertion order.
  \<^verbatim>\<open>update\<close> changes the row its \<^verbatim>\<open>where\<close> selects and raises when there is none.
\<close>

fun updateWhere :: "('a \<Rightarrow> bool) \<Rightarrow> ('a \<Rightarrow> 'a) \<Rightarrow> 'a list \<Rightarrow> 'a list option" where
  "updateWhere P f [] = None"
| "updateWhere P f (x # xs) =
     (if P x then Some (f x # xs) else map_option ((#) x) (updateWhere P f xs))"

text \<open>
  \<^verbatim>\<open>transaction.create\<close> / \<^verbatim>\<open>createMany\<close>: the unique index
  \<^verbatim>\<open>Transaction_reference_key\<close> rejects a reference that is already stored or that
  occurs twice among the new rows.
\<close>

definition createMany :: "transaction list \<Rightarrow> transaction list \<Rightarrow> transaction list option" where
  "createMany rows ts =
     (if distinct (map reference rows)
         \<and> list_all (\<lambda>r. reference r \<notin> set (map reference ts)) rows
      then Some (ts @ rows) else None)"

text \<open>
  \<^verbatim>\<open>wallet.upsert({where: {userId}, create: {userId, balance}, update: {balance: {increment}}})\<close>.
  The \<^verbatim>\<open>create\<close> branch gives no wallet number; the value the column gets there comes
  from the Prisma schema, which is not part of the sources, so it is the parameter
  \<open>dflt\<close>. The unique index \<^verbatim>\<open>Wallet_walletNumber_key\<close> applies to it.
\<close>

definition upsertWallet :: "string \<Rightarrow> string \<Rightarrow> number \<Rightarrow> wallet list \<Rightarrow> wallet list option" where
  "upsertWallet dflt uid amt ws =
     (case updateWhere (\<lambda>w. userId w = uid) (\<lambda>w. w\<lparr>balance := double (balance w + amt)\<rparr>) ws of
        Some ws' \<Rightarrow> Some ws'
      | None \<Rightarrow>
          if find (\<lambda>w. walletNumber w = dflt) ws = None
          then Some (ws @ [\<lparr>userId = uid, walletNumber = dflt, balance = amt\<rparr>])
          else None)"

section \<open>Wallet operations\<close>

text \<open>
  \<^verbatim>\<open>generateWalletNumber\<close>: \<open>now\<close> is \<^verbatim>\<open>Date.now()\<close> and \<open>rnd\<close> is
  \<^verbatim>\<open>Math.floor(Math.random() * 100)\<close>.
\<close>

definition generateWalletNumber :: "nat \<Rightarrow> nat \<Rightarrow> string" where
  "generateWalletNumber now rnd =
     (let timestamp = slice_last 10 (string_of_nat now);
          random = padStart 2 (string_of_nat rnd)
      in timestamp @ random)"

definition maxAttempts :: nat where
  "maxAttempts = 5"

text \<open>
  The retry loop of \<^verbatim>\<open>getOrCreateWallet\<close>. \<open>src k\<close> is the clock and the random number
  the \<open>k\<close>-th call of \<^verbatim>\<open>generateWalletNumber\<close> sees. The loop returns the final
  \<^verbatim>\<open>attempts\<close> and \<^verbatim>\<open>walletNumber\<close>.
\<close>

function walletNumberLoop ::
  "wallet list \<Rightarrow> (nat \<Rightarrow> nat \<times> nat) \<Rightarrow> nat \<Rightarrow> string \<Rightarrow> nat \<times> string" where
  "walletNumberLoop ws src attempts wn =
     (if attempts < maxAttempts then
        (if find (\<lambda>w. walletNumber w
                    = generateWalletNumber (fst (src attempts)) (snd (src attempts))) ws = None
         then (attempts, generateWalletNumber (fst (src attempts)) (snd (src attempts)))
         else walletNumberLoop ws src (attempts + 1)
                (generateWalletNumber (fst (src attempts)) (snd (src attempts))))
      else (attempts, wn))"
  by pat_completeness auto
termination
  by (relation "measure (\<lambda>(ws, src, attempts, wn). maxAttempts - attempts)") auto

declare walletNumberLoop.simps [simp del]

definition getOrCreateWallet ::
  "state \<Rightarrow> string \<Rightarrow> (nat \<Rightarrow> nat \<times> nat) \<Rightarrow> (error + wallet) \<times> state" where
  "getOrCreateWallet s uid src =
     (case find (\<lambda>w. userId w = uid) (wallets s) of
        Some w \<Rightarrow> (Inr w, s)
      | None \<Rightarrow>
          (case walletNumberLoop (wallets s) src 0 [] of
             (attempts, wn) \<Rightarrow>
               if attempts = maxAttempts
               then (Inl (BadRequestException ''Failed to generate unique wallet number''), s)
               else (Inr \<lparr>userId = uid, walletNumber = wn, balance = 0\<rparr>,
                     s\<lparr>wallets := wallets s @ [\<lparr>userId = uid, walletNumber = wn, balance = 0\<rparr>]\<rparr>)))"

section \<open>Deposit initiation\<close>

text \<open>The body posted to \<^verbatim>\<open>/transaction/initialize\<close> and the fields read from the answer.\<close>

record init_request =
  rq_email :: string
  rq_amount :: number
  rq_reference :: string
  rq_callback_url :: string
  rq_user_id :: string
  rq_transaction_type :: string

record init_response =
  rs_reference :: string
  rs_authorization_url :: string
  rs_access_code :: string

record deposit_result =
  dr_reference :: string
  dr_authorization_url :: string

definition depositReference :: "nat \<Rightarrow> string \<Rightarrow> string" where
  "depositReference now uid = ''dep_'' @ string_of_nat now @ ''_'' @ uid"

definition initializeBody :: "string \<Rightarrow> string \<Rightarrow> number \<Rightarrow> string \<Rightarrow> nat \<Rightarrow> init_request" where
  "initializeBody appUrl uid amt email now =
     \<lparr>rq_email = email,
      rq_amount = double (amt * 100),
      rq_reference = depositReference now uid,
      rq_callback_url = appUrl,
      rq_user_id = uid,
      rq_transaction_type = ''deposit''\<rparr>"

text \<open>The row of \<^verbatim>\<open>transaction.create\<close> in \<^verbatim>\<open>initiateDeposit\<close>.\<close>

definition pendingDeposit :: "string \<Rightarrow> number \<Rightarrow> nat \<Rightarrow> init_response \<Rightarrow> transaction" where
  "pendingDeposit uid amt now response =
     \<lparr>t_userId = uid,
      reference = depositReference now uid,
      amount = amt,
      t_type = ''deposit'',
      status = ''pending'',
      paystackReference = Some (rs_access_code response),
      gatewayResponse = None,
      metadata = None,
      completedAt = None\<rparr>"

text \<open>
  \<open>gateway\<close> is the payment gateway behind \<^verbatim>\<open>axios.post\<close>: \<open>None\<close> when the call throws.
  Everything inside the \<^verbatim>\<open>try\<close>, the insert included, ends in the same
  \<^verbatim>\<open>BadRequestException\<close>.
\<close>

definition initiateDeposit ::
  "(init_request \<Rightarrow> init_response option) \<Rightarrow> string \<Rightarrow> state \<Rightarrow> string \<Rightarrow> number \<Rightarrow> string
     \<Rightarrow> (nat \<Rightarrow> nat \<times> nat) \<Rightarrow> nat \<Rightarrow> (error + deposit_result) \<times> state" where
  "initiateDeposit gateway appUrl s uid amt email src now =
     (case getOrCreateWallet s uid src of
        (Inl e, s1) \<Rightarrow> (Inl e, s1)
      | (Inr w, s1) \<Rightarrow>
          (case gateway (initializeBody appUrl uid amt email now) of
             None \<Rightarrow> (Inl (BadRequestException ''Failed to initialize payment''), s1)
           | Some response \<Rightarrow>
               (case createMany [pendingDeposit uid amt now response] (transactions s1) of
                  None \<Rightarrow> (Inl (BadRequestException ''Failed to initialize payment''), s1)
                | Some ts \<Rightarrow>
                    (Inr \<lparr>dr_reference = rs_reference response,
                          dr_authorization_url = rs_authorization_url response\<rparr>,
                     s1\<lparr>transactions := ts\<rparr>))))"

section \<open>Webhook\<close>

text \<open>
  The service object: the constructor stores the configured secret key in both fields.
  \<open>hmac key payload\<close> stands for
  \<^verbatim>\<open>crypto.createHmac('sha512', key).update(payload).digest('hex')\<close>.
\<close>

record wallet_service =
  paystackSecretKey :: string
  paystackWebhookSecret :: string

definition constructor :: "string \<Rightarrow> wallet_service" where
  "constructor secretKey = \<lparr>paystackSecretKey = secretKey, paystackWebhookSecret = secretKey\<rparr>"

definition webhookSecret :: "wallet_service \<Rightarrow> string" where
  "webhookSecret svc =
     (if paystackWebhookSecret svc \<noteq> [] then paystackWebhookSecret svc else paystackSecretKey svc)"

definition verifyPaystackSignature ::
  "(string \<Rightarrow> string \<Rightarrow> string) \<Rightarrow> wallet_service \<Rightarrow> string \<Rightarrow> string \<Rightarrow> bool" where
  "verifyPaystackSignature hmac svc payload signature = (hmac (webhookSecret svc) payload = signature)"

record webhook_data =
  wd_reference :: string
  wd_amount :: number
  wd_status :: string
  wd_gateway_response :: "string option"

record webhook_result =
  wr_status :: bool
  wr_message :: "string option"

text \<open>The callback of \<^verbatim>\<open>$transaction\<close> in \<^verbatim>\<open>handleWebhook\<close>; \<open>Inl\<close> when it throws.\<close>

definition webhookTx ::
  "string \<Rightarrow> state \<Rightarrow> transaction \<Rightarrow> webhook_data \<Rightarrow> bool \<Rightarrow> nat \<Rightarrow> error + state" where
  "webhookTx dflt s tr d isPaymentSuccessful now =
     (case updateWhere (\<lambda>t. reference t = wd_reference d)
             (\<lambda>t. t\<lparr>status := (if isPaymentSuccessful then ''success'' else ''failed''),
                     gatewayResponse := wd_gateway_response d,
                     completedAt := Some now\<rparr>)
             (transactions s) of
        None \<Rightarrow> Inl RecordNotFound
      | Some ts \<Rightarrow>
          if isPaymentSuccessful then
            (case upsertWallet dflt (t_userId tr) (double (wd_amount d / 100)) (wallets s) of
               None \<Rightarrow> Inl UniqueConstraintViolation
             | Some ws \<Rightarrow> Inr \<lparr>wallets = ws, transactions = ts\<rparr>)
          else Inr (s\<lparr>transactions := ts\<rparr>))"

definition handleWebhook ::
  "string \<Rightarrow> state \<Rightarrow> string \<Rightarrow> webhook_data \<Rightarrow> nat \<Rightarrow> (error + webhook_result) \<times> state" where
  "handleWebhook dflt s event d now =
     (if \<not> startsWith event ''charge.''
      then (Inr \<lparr>wr_status = True, wr_message = Some ''Event ignored''\<rparr>, s)
      else
        (case find (\<lambda>t. reference t = wd_reference d) (transactions s) of
           None \<Rightarrow> (Inl (NotFoundException ''Transaction not found''), s)
         | Some tr \<Rightarrow>
             if status tr = ''success'' \<or> status tr = ''failed''
             then (Inr \<lparr>wr_status = True, wr_message = Some ''Already processed''\<rparr>, s)
             else
               (case webhookTx dflt s tr d
                        (event = ''charge.success'' \<and> wd_status d = ''success'') now of
                  Inl e \<Rightarrow> (Inl e, s)
                | Inr s' \<Rightarrow> (Inr \<lparr>wr_status = True, wr_message = None\<rparr>, s'))))"

text \<open>
  The controller's \<^verbatim>\<open>paystackWebhook\<close>. \<open>signature\<close> is the header
  \<^verbatim>\<open>x-paystack-signature\<close> (\<open>None\<close> when absent), \<open>raw\<close> is \<^verbatim>\<open>req.rawBody\<close>, and
  \<open>parse\<close> stands for \<^verbatim>\<open>JSON.parse\<close> followed by reading \<^verbatim>\<open>event\<close> and \<^verbatim>\<open>data\<close>.
\<close>

definition paystackWebhook ::
  "(string \<Rightarrow> string \<Rightarrow> string) \<Rightarrow> (string \<Rightarrow> (string \<times> webhook_data) option) \<Rightarrow> wallet_service
     \<Rightarrow> string \<Rightarrow> state \<Rightarrow> string option \<Rightarrow> string option \<Rightarrow> nat
     \<Rightarrow> (error + webhook_result) \<times> state" where
  "paystackWebhook hmac parse svc dflt s signature raw now =
     (case signature of
        None \<Rightarrow> (Inl (BadRequestException ''No signature header''), s)
      | Some sg \<Rightarrow>
          if sg = [] then (Inl (BadRequestException ''No signature header''), s)
          else if \<not> verifyPaystackSignature hmac svc (case raw of None \<Rightarrow> [] | Some b \<Rightarrow> b) sg
          then (Inl (BadRequestException ''Invalid signature''), s)
          else
            (case parse (case raw of None \<Rightarrow> [] | Some b \<Rightarrow> b) of
               None \<Rightarrow> (Inl SyntaxError, s)
             | Some (event, d) \<Rightarrow> handleWebhook dflt s event d now))"

text \<open>
  The route \<^verbatim>\<open>POST /wallet/paystack/webhook\<close> as the application serves it.
  \<^verbatim>\<open>bootstrap\<close> calls \<^verbatim>\<open>NestFactory.create(AppModule)\<close> with no options, and nothing
  else in the sources assigns \<^verbatim>\<open>req.rawBody\<close>; the framework fills that field only
  under the option \<^verbatim>\<open>rawBody: true\<close>. So the controller sees no raw body, whatever
  body the request carries.
\<close>

definition rawBodyOption :: bool where
  "rawBodyOption = False"

definition requestRawBody :: "string \<Rightarrow> string option" where
  "requestRawBody body = (if rawBodyOption then Some body else None)"

definition webhookRoute ::
  "(string \<Rightarrow> string \<Rightarrow> string) \<Rightarrow> (string \<Rightarrow> (string \<times> webhook_data) option) \<Rightarrow> wallet_service
     \<Rightarrow> string \<Rightarrow> state \<Rightarrow> string option \<Rightarrow> string \<Rightarrow> nat
     \<Rightarrow> (error + webhook_result) \<times> state" where
  "webhookRoute hmac parse svc dflt s signature body now =
     paystackWebhook hmac parse svc dflt s signature (requestRawBody body) now"

section \<open>Verification poll\<close>

text \<open>
  The outcome of \<^verbatim>\<open>axios.get\<close> on \<^verbatim>\<open>/transaction/verify/<reference>\<close>: the fields read
  from \<^verbatim>\<open>response.data.data\<close>, or a thrown error with its \<^verbatim>\<open>error.response?.status\<close>.
\<close>

record verify_data =
  vd_status :: string
  vd_amount :: number
  vd_gateway_response :: "string option"

datatype verify_response = VerifyOk verify_data | VerifyThrows "nat option"

record verify_result =
  vr_reference :: string
  vr_status :: string
  vr_amount :: number
  vr_paystackStatus :: "string option"
  vr_message :: string

text \<open>The \<^verbatim>\<open>catch\<close> block; \<open>code\<close> is \<^verbatim>\<open>error.response?.status\<close>.\<close>

definition verifyCatch ::
  "state \<Rightarrow> string \<Rightarrow> transaction \<Rightarrow> nat option \<Rightarrow> nat \<Rightarrow> (error + verify_result) \<times> state" where
  "verifyCatch s ref tr code now =
     (if code = Some 404 then
        (case updateWhere (\<lambda>t. reference t = ref)
                (\<lambda>t. t\<lparr>status := ''failed'',
                        gatewayResponse := Some ''Transaction abandoned or not completed'',
                        completedAt := Some now\<rparr>)
                (transactions s) of
           None \<Rightarrow> (Inl RecordNotFound, s)
         | Some ts \<Rightarrow>
             (Inr \<lparr>vr_reference = ref, vr_status = ''failed'', vr_amount = amount tr,
                   vr_paystackStatus = None, vr_message = ''Payment was abandoned''\<rparr>,
              s\<lparr>transactions := ts\<rparr>))
      else
        (Inr \<lparr>vr_reference = ref, vr_status = ''pending'', vr_amount = amount tr,
              vr_paystackStatus = None,
              vr_message = ''Unable to verify payment status. Please try again.''\<rparr>,
         s))"

text \<open>The callback of \<^verbatim>\<open>$transaction\<close> in \<^verbatim>\<open>verifyDepositWithPaystack\<close>.\<close>

definition verifyTx ::
  "string \<Rightarrow> state \<Rightarrow> string \<Rightarrow> transaction \<Rightarrow> verify_data \<Rightarrow> nat \<Rightarrow> error + state" where
  "verifyTx dflt s ref tr d now =
     (case updateWhere (\<lambda>t. reference t = ref)
             (\<lambda>t. t\<lparr>status := ''success'',
                     gatewayResponse := vd_gateway_response d,
                     completedAt := Some now\<rparr>)
             (transactions s) of
        None \<Rightarrow> Inl RecordNotFound
      | Some ts \<Rightarrow>
          (case upsertWallet dflt (t_userId tr) (double (vd_amount d / 100)) (wallets s) of
             None \<Rightarrow> Inl UniqueConstraintViolation
           | Some ws \<Rightarrow> Inr \<lparr>wallets = ws, transactions = ts\<rparr>))"

text \<open>
  An error thrown by a database call inside the \<^verbatim>\<open>try\<close> has no \<^verbatim>\<open>response\<close>, so it
  reaches the \<^verbatim>\<open>catch\<close> block with \<open>code = None\<close>.
\<close>

definition verifyDepositWithPaystack ::
  "string \<Rightarrow> state \<Rightarrow> string \<Rightarrow> verify_response \<Rightarrow> nat \<Rightarrow> (error + verify_result) \<times> state" where
  "verifyDepositWithPaystack dflt s ref resp now =
     (case find (\<lambda>t. reference t = ref) (transactions s) of
        None \<Rightarrow> (Inl (NotFoundException ''Transaction not found''), s)
      | Some tr \<Rightarrow>
          (case resp of
             VerifyThrows code \<Rightarrow> verifyCatch s ref tr code now
           | VerifyOk d \<Rightarrow>
               if status tr = ''success'' then
                 (Inr \<lparr>vr_reference = reference tr, vr_status = status tr, vr_amount = amount tr,
                       vr_paystackStatus = Some (vd_status d),
                       vr_message = ''Transaction already processed''\<rparr>,
                  s)
               else if vd_status d = ''success'' then
                 (case verifyTx dflt s ref tr d now of
                    Inl e \<Rightarrow> verifyCatch s ref tr None now
                  | Inr s' \<Rightarrow>
                      (Inr \<lparr>vr_reference = reference tr, vr_status = ''success'',
                            vr_amount = double (vd_amount d / 100),
                            vr_paystackStatus = Some (vd_status d),
                            vr_message = ''Payment verified and wallet credited''\<rparr>,
                       s'))
               else
                 (case updateWhere (\<lambda>t. reference t = ref)
                         (\<lambda>t. t\<lparr>status := ''failed'',
                                 gatewayResponse :=
                                   (case vd_gateway_response d of
                                      None \<Rightarrow> Some ''Payment not completed''
                                    | Some g \<Rightarrow>
                                        if g = [] then Some ''Payment not completed'' else Some g),
                                 completedAt := Some now\<rparr>)
                         (transactions s) of
                    None \<Rightarrow> verifyCatch s ref tr None now
                  | Some ts \<Rightarrow>
                      (Inr \<lparr>vr_reference = reference tr, vr_status = ''failed'',
                            vr_amount = amount tr,
                            vr_paystackStatus = Some (vd_status d),
                            vr_message = ''Payment failed''\<rparr>,
                       s\<lparr>transactions := ts\<rparr>))))"

section \<open>Transfer\<close>

text \<open>
  \<open>sha256 x\<close> stands for \<^verbatim>\<open>crypto.createHash('sha256').update(x).digest('hex')\<close> and
  \<open>str a\<close> for the template conversion \<^verbatim>\<open>${amount}\<close> of a JavaScript number.
\<close>

definition idempotencyKey ::
  "(string \<Rightarrow> string) \<Rightarrow> (number \<Rightarrow> string) \<Rightarrow> string \<Rightarrow> string \<Rightarrow> number \<Rightarrow> string" where
  "idempotencyKey sha256 str fromUserId toWalletNumber amt =
     ''idf_'' @ take 16 (sha256 (fromUserId @ ''_'' @ toWalletNumber @ ''_'' @ str amt))"

text \<open>The filter \<^verbatim>\<open>metadata: {path: [k], equals: v}\<close>.\<close>

definition metadataPath :: "transaction \<Rightarrow> string \<Rightarrow> string option" where
  "metadataPath t k = (case metadata t of None \<Rightarrow> None | Some m \<Rightarrow> map_of m k)"

datatype transfer_outcome = Duplicate string | Completed string string

text \<open>
  \<^verbatim>\<open>senderReference\<close> and \<^verbatim>\<open>recipientReference\<close> are the same template applied to the
  sender's and to the recipient's user id, with one \<^verbatim>\<open>Date.now()\<close>.
\<close>

definition transferReference :: "nat \<Rightarrow> string \<Rightarrow> string" where
  "transferReference now uid = ''txf_'' @ string_of_nat now @ ''_'' @ uid"

text \<open>The two rows of \<^verbatim>\<open>createMany\<close>.\<close>

definition transferOutRow :: "string \<Rightarrow> string \<Rightarrow> string \<Rightarrow> number \<Rightarrow> nat \<Rightarrow> transaction" where
  "transferOutRow key fromUserId toWalletNumber amt now =
     \<lparr>t_userId = fromUserId,
      reference = transferReference now fromUserId,
      amount = - amt,
      t_type = ''transfer_out'',
      status = ''success'',
      paystackReference = None,
      gatewayResponse = None,
      metadata = Some [(''to'', toWalletNumber), (''idempotency_key'', key)],
      completedAt = None\<rparr>"

definition transferInRow :: "string \<Rightarrow> wallet \<Rightarrow> wallet \<Rightarrow> number \<Rightarrow> nat \<Rightarrow> transaction" where
  "transferInRow key recipientWallet senderWallet amt now =
     \<lparr>t_userId = userId recipientWallet,
      reference = transferReference now (userId recipientWallet),
      amount = amt,
      t_type = ''transfer_in'',
      status = ''success'',
      paystackReference = None,
      gatewayResponse = None,
      metadata = Some [(''from'', walletNumber senderWallet), (''idempotency_key'', key)],
      completedAt = None\<rparr>"

text \<open>
  The callback of \<^verbatim>\<open>$transaction\<close> in \<^verbatim>\<open>transfer\<close>. \<open>recipientWallet\<close> and
  \<open>senderWallet\<close> are the rows read before the transaction started.
\<close>

definition transferTx ::
  "string \<Rightarrow> state \<Rightarrow> string \<Rightarrow> string \<Rightarrow> number \<Rightarrow> nat \<Rightarrow> wallet \<Rightarrow> wallet
     \<Rightarrow> error + transfer_outcome \<times> state" where
  "transferTx key s fromUserId toWalletNumber amt now recipientWallet senderWallet =
     (case find (\<lambda>t. metadataPath t ''idempotency_key'' = Some key \<and> status t = ''success'')
             (transactions s) of
        Some existingTransfer \<Rightarrow> Inr (Duplicate (reference existingTransfer), s)
      | None \<Rightarrow>
          (case find (\<lambda>w. userId w = fromUserId) (wallets s) of
             None \<Rightarrow> Inl (BadRequestException ''Insufficient balance'')
           | Some freshSenderWallet \<Rightarrow>
               if balance freshSenderWallet < amt
               then Inl (BadRequestException ''Insufficient balance'')
               else
                 (case updateWhere
                         (\<lambda>w. userId w = fromUserId \<and> balance w = balance freshSenderWallet)
                         (\<lambda>w. w\<lparr>balance := double (balance w - amt)\<rparr>) (wallets s) of
                    None \<Rightarrow> Inl RecordNotFound
                  | Some ws1 \<Rightarrow>
                      (case updateWhere (\<lambda>w. walletNumber w = toWalletNumber)
                              (\<lambda>w. w\<lparr>balance := double (balance w + amt)\<rparr>) ws1 of
                         None \<Rightarrow> Inl RecordNotFound
                       | Some ws2 \<Rightarrow>
                           (case createMany
                                   [transferOutRow key fromUserId toWalletNumber amt now,
                                    transferInRow key recipientWallet senderWallet amt now]
                                   (transactions s) of
                              None \<Rightarrow> Inl UniqueConstraintViolation
                            | Some ts \<Rightarrow>
                                Inr (Completed
                                       (transferReference now fromUserId)
                                       (transferReference now (userId recipientWallet)),
                                     \<lparr>wallets = ws2, transactions = ts\<rparr>))))))"

record transfer_result =
  tr_status :: string
  tr_message :: string
  tr_reference :: string

definition transfer ::
  "(string \<Rightarrow> string) \<Rightarrow> (number \<Rightarrow> string) \<Rightarrow> state \<Rightarrow> string \<Rightarrow> string \<Rightarrow> number \<Rightarrow> nat
     \<Rightarrow> (error + transfer_result) \<times> state" where
  "transfer sha256 str s fromUserId toWalletNumber amt now =
     (if amt \<le> 0 then (Inl (BadRequestException ''Amount must be greater than zero''), s)
      else
        (case find (\<lambda>w. walletNumber w = toWalletNumber) (wallets s) of
           None \<Rightarrow> (Inl (NotFoundException ''Recipient wallet not found''), s)
         | Some recipientWallet \<Rightarrow>
             (case find (\<lambda>w. userId w = fromUserId) (wallets s) of
                None \<Rightarrow> (Inl (BadRequestException ''Insufficient balance''), s)
              | Some senderWallet \<Rightarrow>
                  if balance senderWallet < amt
                  then (Inl (BadRequestException ''Insufficient balance''), s)
                  else
                    (case transferTx (idempotencyKey sha256 str fromUserId toWalletNumber amt)
                            s fromUserId toWalletNumber amt now recipientWallet senderWallet of
                       Inl e \<Rightarrow> (Inl e, s)
                     | Inr (Duplicate ref, s') \<Rightarrow>
                         (Inr \<lparr>tr_status = ''success'',
                               tr_message = ''Transfer already processed'',
                               tr_reference = ref\<rparr>, s')
                     | Inr (Completed senderReference recipientReference, s') \<Rightarrow>
                         (Inr \<lparr>tr_status = ''success'',
                               tr_message = ''Transfer completed'',
                               tr_reference = senderReference\<rparr>, s')))))"

section \<open>Calls of the service and properties of the stored state\<close>

text \<open>
  One call of a state-changing method of the service with everything it reads from
  outside: clocks, random numbers, the gateway's answers.
\<close>

datatype operation =
    GetOrCreateWallet string "nat \<Rightarrow> nat \<times> nat"
  | InitiateDeposit "init_request \<Rightarrow> init_response option" string number string
      "nat \<Rightarrow> nat \<times> nat" nat
  | HandleWebhook string webhook_data nat
  | VerifyDepositWithPaystack string verify_response nat
  | Transfer string string number nat

fun step ::
  "(string \<Rightarrow> string) \<Rightarrow> (number \<Rightarrow> string) \<Rightarrow> string \<Rightarrow> string \<Rightarrow> state \<Rightarrow> operation \<Rightarrow> state" where
  "step sha256 str appUrl dflt s (GetOrCreateWallet uid src) = snd (getOrCreateWallet s uid src)"
| "step sha256 str appUrl dflt s (InitiateDeposit gateway uid amt email src now) =
     snd (initiateDeposit gateway appUrl s uid amt email src now)"
| "step sha256 str appUrl dflt s (HandleWebhook event d now) =
     snd (handleWebhook dflt s event d now)"
| "step sha256 str appUrl dflt s (VerifyDepositWithPaystack ref resp now) =
     snd (verifyDepositWithPaystack dflt s ref resp now)"
| "step sha256 str appUrl dflt s (Transfer fromUserId toWalletNumber amt now) =
     snd (transfer sha256 str s fromUserId toWalletNumber amt now)"

definition run ::
  "(string \<Rightarrow> string) \<Rightarrow> (number \<Rightarrow> string) \<Rightarrow> string \<Rightarrow> string \<Rightarrow> state \<Rightarrow> operation list \<Rightarrow> state" where
  "run sha256 str appUrl dflt s ops = foldl (step sha256 str appUrl dflt) s ops"

text \<open>The amount the gateway reports in a webhook event or in a verification answer.\<close>

fun gatewayAmountNonneg :: "operation \<Rightarrow> bool" where
  "gatewayAmountNonneg (HandleWebhook event d now) = (0 \<le> wd_amount d)"
| "gatewayAmountNonneg (VerifyDepositWithPaystack ref (VerifyOk d) now) = (0 \<le> vd_amount d)"
| "gatewayAmountNonneg _ = True"

definition balancesNonneg :: "state \<Rightarrow> bool" where
  "balancesNonneg s = list_all (\<lambda>w. 0 \<le> balance w) (wallets s)"

text \<open>The unique indexes \<^verbatim>\<open>Wallet_userId_key\<close> and \<^verbatim>\<open>Wallet_walletNumber_key\<close>.\<close>

definition uniqueWallets :: "state \<Rightarrow> bool" where
  "uniqueWallets s =
     (distinct (map userId (wallets s)) \<and> distinct (map walletNumber (wallets s)))"

definition balanceOfUser :: "state \<Rightarrow> string \<Rightarrow> number option" where
  "balanceOfUser s uid = map_option balance (find (\<lambda>w. userId w = uid) (wallets s))"

definition balanceOfNumber :: "state \<Rightarrow> string \<Rightarrow> number option" where
  "balanceOfNumber s wn = map_option balance (find (\<lambda>w. walletNumber w = wn) (wallets s))"

definition statusOf :: "state \<Rightarrow> string \<Rightarrow> string option" where
  "statusOf s ref = map_option status (find (\<lambda>t. reference t = ref) (transactions s))"

section \<open>Example states\<close>

definition exSender :: wallet where
  "exSender = \<lparr>userId = ''u1'', walletNumber = ''1000000001'', balance = 100\<rparr>"

definition exRecipient :: wallet where
  "exRecipient = \<lparr>userId = ''u2'', walletNumber = ''1000000002'', balance = 0\<rparr>"

definition exLedger :: state where
  "exLedger = \<lparr>wallets = [exSender, exRecipient], transactions = []\<rparr>"

text \<open>A stand-in for the hash and for the number conversion in concrete runs.\<close>

definition exHash :: "string \<Rightarrow> string" where
  "exHash x = x"

definition exStr :: "number \<Rightarrow> string" where
  "exStr a = string_of_nat (nat \<lfloor>a\<rfloor>)"

definition exFirst :: "(error + transfer_result) \<times> state" where
  "exFirst = transfer exHash exStr exLedger ''u1'' ''1000000002'' 100 1000"

definition exDeposit :: transaction where
  "exDeposit =
     \<lparr>t_userId = ''u1'', reference = ''dep_1000_u1'', amount = 50, t_type = ''deposit'',
      status = ''pending'', paystackReference = Some ''ac_1'', gatewayResponse = None,
      metadata = None, completedAt = None\<rparr>"

definition exPending :: state where
  "exPending = \<lparr>wallets = [exSender, exRecipient], transactions = [exDeposit]\<rparr>"

definition exEvent :: "number \<Rightarrow> webhook_data" where
  "exEvent k =
     \<lparr>wd_reference = ''dep_1000_u1'', wd_amount = k, wd_status = ''success'',
      wd_gateway_response = Some ''Successful''\<rparr>"

text \<open>The deposit settled by a \<^verbatim>\<open>charge.success\<close> event, and failed by a \<^verbatim>\<open>charge.failed\<close> one.\<close>

definition exSettled :: state where
  "exSettled = snd (handleWebhook ''wn'' exPending ''charge.success'' (exEvent 5000) 2000)"

definition exFailed :: state where
  "exFailed = snd (handleWebhook ''wn'' exPending ''charge.failed'' (exEvent 5000) 2000)"

definition exVerifyData :: verify_data where
  "exVerifyData = \<lparr>vd_status = ''success'', vd_amount = 5000, vd_gateway_response = None\<rparr>"

definition exInitResponse :: init_response where
  "exInitResponse =
     \<lparr>rs_reference = ''dep_2000_u2'', rs_authorization_url = ''https://checkout/x'',
      rs_access_code = ''ac_2''\<rparr>"


definition exOps :: "operation list" where
  "exOps =
     [Transfer ''u1'' ''1000000002'' 100 1000,
      InitiateDeposit (\<lambda>rq. Some exInitResponse) ''u2'' 50 ''b@x.y'' (\<lambda>k. (0, 0)) 2000,
      HandleWebhook ''charge.success''
        \<lparr>wd_reference = ''dep_2000_u2'', wd_amount = 5000, wd_status = ''success'',
         wd_gateway_response = None\<rparr> 3000,
      VerifyDepositWithPaystack ''dep_2000_u2'' (VerifyOk exVerifyData) 4000]"

definition exEmpty :: state where
  "exEmpty = \<lparr>wallets = [], transactions = []\<rparr>"

definition exHmac :: "string \<Rightarrow> string \<Rightarrow> string" where
  "exHmac key payload = ''mac:'' @ key @ '':'' @ payload"

definition exParse :: "string \<Rightarrow> (string \<times> webhook_data) option" where
  "exParse body = (if body = ''E'' then Some (''charge.success'', exEvent 5000) else None)"

text \<open>A sender whose balance is \<open>2^27\<close>; the amount \<open>2^-30\<close> is below half its last binary place.\<close>

definition exLargeLedger :: state where
  "exLargeLedger =
     \<lparr>wallets = [\<lparr>userId = ''u1'', walletNumber = ''1000000001'', balance = 134217728\<rparr>,
                 exRecipient],
      transactions = []\<rparr>"

section \<open>Rounding keeps the sign\<close>

lemma mantDown_pos:
  "0 \<le> y \<Longrightarrow> 0 < u \<Longrightarrow> mantDown y e u = (y', e', u') \<Longrightarrow> 0 \<le> y' \<and> 0 < u'"
proof (induction y e u rule: mantDown.induct)
  case (1 y e u)
  show ?case
  proof (cases "9007199254740992 \<le> y \<and> e < 971")
    case True
    with "1.prems" have "mantDown (y / 2) (e + 1) (u * 2) = (y', e', u')"
      by (simp add: mantDown.simps[of y e u])
    with "1.IH"[OF True] "1.prems"(1,2) show ?thesis by simp
  next
    case False
    with "1.prems" show ?thesis by (simp add: mantDown.simps[of y e u])
  qed
qed

lemma mantUp_pos:
  "0 \<le> y \<Longrightarrow> 0 < u \<Longrightarrow> mantUp y e u = (y', e', u') \<Longrightarrow> 0 \<le> y' \<and> 0 < u'"
proof (induction y e u rule: mantUp.induct)
  case (1 y e u)
  show ?case
  proof (cases "y < 4503599627370496 \<and> - 1074 < e")
    case True
    with "1.prems" have "mantUp (y * 2) (e - 1) (u / 2) = (y', e', u')"
      by (simp add: mantUp.simps[of y e u])
    with "1.IH"[OF True] "1.prems"(1,2) show ?thesis by simp
  next
    case False
    with "1.prems" show ?thesis by (simp add: mantUp.simps[of y e u])
  qed
qed

lemma roundHalfEven_nonneg: "0 \<le> y \<Longrightarrow> 0 \<le> roundHalfEven y"
  by (simp add: roundHalfEven_def)

lemma double_nonneg:
  assumes "0 \<le> x"
  shows "0 \<le> double x"
proof (cases "x = 0")
  case True
  then show ?thesis by (simp add: double_def)
next
  case False
  obtain y e u where d: "mantDown \<bar>x\<bar> 0 1 = (y, e, u)" by (cases "mantDown \<bar>x\<bar> 0 1")
  obtain y' e' u' where up: "mantUp y e u = (y', e', u')" by (cases "mantUp y e u")
  from mantDown_pos[OF _ _ d] have "0 \<le> y" "0 < u" by simp_all
  from mantUp_pos[OF this up] have "0 \<le> y'" "0 < u'" by simp_all
  then have "0 \<le> of_int (roundHalfEven y') * u'"
    using roundHalfEven_nonneg[of y'] by simp
  moreover have "0 \<le> sgn x" using assms by (simp add: sgn_if)
  ultimately show ?thesis using False d up
    by (simp add: double_def mult.assoc)
qed

section \<open>Table lemmas\<close>

lemma updateWhere_None_iff: "updateWhere P f xs = None \<longleftrightarrow> find P xs = None"
  by (induction xs) auto

lemma updateWhere_list_all:
  assumes "updateWhere P f xs = Some ys" and "list_all Q xs" and "\<And>x. P x \<Longrightarrow> Q x \<Longrightarrow> Q (f x)"
  shows "list_all Q ys"
  using assms by (induction xs arbitrary: ys) (auto split: if_splits)

lemma updateWhere_map_key:
  assumes "updateWhere P f xs = Some ys" and "\<And>x. g (f x) = g x"
  shows "map g ys = map g xs"
  using assms by (induction xs arbitrary: ys) (auto split: if_splits)

lemma updateWhere_unique:
  assumes "updateWhere P f xs = Some ys" and "distinct (map k xs)" and "\<And>x. P x \<Longrightarrow> k x = c"
  shows "ys = map (\<lambda>x. if k x = c then f x else x) xs"
  using assms
proof (induction xs arbitrary: ys)
  case Nil
  then show ?case by simp
next
  case (Cons x xs)
  show ?case
  proof (cases "P x")
    case True
    then have kx: "k x = c" using Cons.prems(3) by simp
    then have "\<forall>y\<in>set xs. k y \<noteq> c" using Cons.prems(2) by (auto simp: image_iff)
    then have "map (\<lambda>x. if k x = c then f x else x) xs = xs"
      by (induction xs) auto
    with True kx Cons.prems(1) show ?thesis by auto
  next
    case False
    then obtain zs where zs: "updateWhere P f xs = Some zs" "ys = x # zs"
      using Cons.prems(1) by auto
    have ih: "zs = map (\<lambda>x. if k x = c then f x else x) xs"
      using Cons.IH[OF zs(1)] Cons.prems(2,3) by simp
    have "find P xs \<noteq> None" using zs(1) updateWhere_None_iff[of P f xs] by simp
    then obtain y where "y \<in> set xs" "P y" by (auto simp: find_None_iff)
    then have "k x \<noteq> c"
      using Cons.prems(2,3) by (auto simp: image_iff)
    then show ?thesis using zs ih by auto
  qed
qed

lemma find_unique_key:
  assumes "distinct (map k xs)" and "x \<in> set xs"
  shows "find (\<lambda>y. k y = k x) xs = Some x"
  using assms by (induction xs) (auto simp: image_iff)

lemma find_Some_mem: "find P xs = Some x \<Longrightarrow> x \<in> set xs \<and> P x"
  by (induction xs) (auto split: if_splits)

lemma transferTx_Completed:
  assumes "transferTx key s u w a now Y X = Inr (Completed r1 r2, s')"
  shows "\<exists>F ws1 ws2 ts.
      find (\<lambda>t. metadataPath t ''idempotency_key'' = Some key \<and> status t = ''success'')
        (transactions s) = None
    \<and> find (\<lambda>x. userId x = u) (wallets s) = Some F
    \<and> a \<le> balance F
    \<and> updateWhere (\<lambda>x. userId x = u \<and> balance x = balance F)
         (\<lambda>x. x\<lparr>balance := double (balance x - a)\<rparr>) (wallets s) = Some ws1
    \<and> updateWhere (\<lambda>x. walletNumber x = w) (\<lambda>x. x\<lparr>balance := double (balance x + a)\<rparr>) ws1 = Some ws2
    \<and> createMany [transferOutRow key u w a now, transferInRow key Y X a now] (transactions s) = Some ts
    \<and> s' = \<lparr>wallets = ws2, transactions = ts\<rparr>
    \<and> r1 = transferReference now u"
  using assms unfolding transferTx_def
  by (simp split: option.splits if_splits)




lemma transfer_Completed:
  assumes ok: "transfer sha256 str s u w a now = (Inr r, s')"
    and fresh: "tr_message r = ''Transfer completed''"
  shows "\<exists>X Y r1 r2.
      0 < a
    \<and> find (\<lambda>x. walletNumber x = w) (wallets s) = Some Y
    \<and> find (\<lambda>x. userId x = u) (wallets s) = Some X
    \<and> a \<le> balance X
    \<and> transferTx (idempotencyKey sha256 str u w a) s u w a now Y X = Inr (Completed r1 r2, s')
    \<and> tr_reference r = r1"
proof -
  have pos: "0 < a"
    using ok by (cases "a \<le> 0") (simp_all add: transfer_def)
  obtain Y where Y: "find (\<lambda>x. walletNumber x = w) (wallets s) = Some Y"
    using ok pos by (cases "find (\<lambda>x. walletNumber x = w) (wallets s)") (simp_all add: transfer_def)
  obtain X where X: "find (\<lambda>x. userId x = u) (wallets s) = Some X"
    using ok pos Y by (cases "find (\<lambda>x. userId x = u) (wallets s)") (simp_all add: transfer_def)
  have bal: "a \<le> balance X"
    using ok pos Y X by (cases "balance X < a") (simp_all add: transfer_def)
  let ?tx = "transferTx (idempotencyKey sha256 str u w a) s u w a now Y X"
  have eq: "transfer sha256 str s u w a now =
      (case ?tx of
         Inl e \<Rightarrow> (Inl e, s)
       | Inr (Duplicate ref, s') \<Rightarrow>
           (Inr \<lparr>tr_status = ''success'', tr_message = ''Transfer already processed'',
                 tr_reference = ref\<rparr>, s')
       | Inr (Completed senderReference recipientReference, s') \<Rightarrow>
           (Inr \<lparr>tr_status = ''success'', tr_message = ''Transfer completed'',
                 tr_reference = senderReference\<rparr>, s'))"
    using pos Y X bal by (simp add: transfer_def)
  show ?thesis
  proof (cases ?tx)
    case (Inl e)
    with eq ok show ?thesis by simp
  next
    case (Inr p)
    obtain out s'' where p: "p = (out, s'')" by (cases p)
    show ?thesis
    proof (cases out)
      case (Duplicate ref)
      with eq ok Inr p have "tr_message r = ''Transfer already processed''" by auto
      with fresh show ?thesis by simp
    next
      case (Completed r1 r2)
      with eq ok Inr p have "s'' = s'" "tr_reference r = r1" by auto
      with pos Y X bal Inr p Completed show ?thesis by simp
    qed
  qed
qed

lemma transfer_completed_cases:
  assumes "transfer sha256 str s u w a now = (Inr r, s')"
    and "tr_message r = ''Transfer completed''"
  shows "\<exists>X Y ws1 ws2 ts.
      0 < a
    \<and> find (\<lambda>x. walletNumber x = w) (wallets s) = Some Y
    \<and> find (\<lambda>x. userId x = u) (wallets s) = Some X
    \<and> a \<le> balance X
    \<and> find (\<lambda>t. metadataPath t ''idempotency_key'' = Some (idempotencyKey sha256 str u w a)
                  \<and> status t = ''success'') (transactions s) = None
    \<and> updateWhere (\<lambda>x. userId x = u \<and> balance x = balance X)
         (\<lambda>x. x\<lparr>balance := double (balance x - a)\<rparr>) (wallets s) = Some ws1
    \<and> updateWhere (\<lambda>x. walletNumber x = w) (\<lambda>x. x\<lparr>balance := double (balance x + a)\<rparr>) ws1 = Some ws2
    \<and> createMany [transferOutRow (idempotencyKey sha256 str u w a) u w a now,
                   transferInRow (idempotencyKey sha256 str u w a) Y X a now] (transactions s) = Some ts
    \<and> s' = \<lparr>wallets = ws2, transactions = ts\<rparr>
    \<and> tr_reference r = transferReference now u"
proof -
  from transfer_Completed[OF assms] obtain X Y r1 r2 where
    a: "0 < a" "find (\<lambda>x. walletNumber x = w) (wallets s) = Some Y"
       "find (\<lambda>x. userId x = u) (wallets s) = Some X" "a \<le> balance X"
    and tx: "transferTx (idempotencyKey sha256 str u w a) s u w a now Y X = Inr (Completed r1 r2, s')"
    and r: "tr_reference r = r1"
    by blast
  from transferTx_Completed[OF tx] a r show ?thesis by auto
qed

lemma transfer_result_of:
  assumes "transfer sha256 str s u w a now = (Inr r, s')"
  shows "tr_status r = ''success''
       \<and> (tr_message r = ''Transfer completed'' \<or> tr_message r = ''Transfer already processed'')"
proof -
  have "\<not> a \<le> 0" using assms by (cases "a \<le> 0") (simp_all add: transfer_def)
  moreover obtain Y where "find (\<lambda>x. walletNumber x = w) (wallets s) = Some Y"
    using assms calculation
    by (cases "find (\<lambda>x. walletNumber x = w) (wallets s)") (simp_all add: transfer_def)
  moreover obtain X where "find (\<lambda>x. userId x = u) (wallets s) = Some X"
    using assms calculation
    by (cases "find (\<lambda>x. userId x = u) (wallets s)") (simp_all add: transfer_def)
  moreover have "\<not> balance X < a"
    using assms calculation by (cases "balance X < a") (simp_all add: transfer_def)
  ultimately show ?thesis using assms
    by (auto simp: transfer_def split: sum.splits transfer_outcome.splits)
qed

section \<open>Transfer: conservation\<close>

text \<open>
  C3 (amended). A transfer that completes (it is not answered as a duplicate) sets the
  sender's balance to the double nearest to the balance minus the amount and the
  recipient's to the double nearest to the balance plus the amount, changes no other
  wallet, and appends exactly two rows with one idempotency key: a \<^verbatim>\<open>transfer_out\<close> row
  of the sender with the negated amount and a \<^verbatim>\<open>transfer_in\<close> row of the recipient with
  the amount, both \<^verbatim>\<open>success\<close>, their amounts summing to zero. Sender and recipient are
  then different users, and the call answers with the sender's reference. The wallets and
  the rows of the result state are those the one \<^verbatim>\<open>$transaction\<close> callback produced.
\<close>

theorem transfer_conservation:
  assumes uniq: "uniqueWallets s"
    and ok: "transfer sha256 str s u w a now = (Inr r, s')"
    and fresh: "tr_message r = ''Transfer completed''"
    and sender: "find (\<lambda>x. userId x = u) (wallets s) = Some X"
    and recipient: "find (\<lambda>x. walletNumber x = w) (wallets s) = Some Y"
  shows "userId Y \<noteq> u
       \<and> balanceOfUser s' u = Some (double (balance X - a))
       \<and> balanceOfNumber s' w = Some (double (balance Y + a))
       \<and> wallets s' = map (\<lambda>x. if userId x = u then x\<lparr>balance := double (balance x - a)\<rparr>
                                else if walletNumber x = w then x\<lparr>balance := double (balance x + a)\<rparr>
                                else x) (wallets s)
       \<and> transactions s' = transactions s
            @ [\<lparr>t_userId = u,
                reference = ''txf_'' @ string_of_nat now @ ''_'' @ u,
                amount = - a,
                t_type = ''transfer_out'',
                status = ''success'',
                paystackReference = None,
                gatewayResponse = None,
                metadata = Some [(''to'', w),
                                 (''idempotency_key'', idempotencyKey sha256 str u w a)],
                completedAt = None\<rparr>,
               \<lparr>t_userId = userId Y,
                reference = ''txf_'' @ string_of_nat now @ ''_'' @ userId Y,
                amount = a,
                t_type = ''transfer_in'',
                status = ''success'',
                paystackReference = None,
                gatewayResponse = None,
                metadata = Some [(''from'', walletNumber X),
                                 (''idempotency_key'', idempotencyKey sha256 str u w a)],
                completedAt = None\<rparr>]
       \<and> sum_list (map amount (drop (length (transactions s)) (transactions s'))) = 0
       \<and> r = \<lparr>tr_status = ''success'', tr_message = ''Transfer completed'',
                tr_reference = ''txf_'' @ string_of_nat now @ ''_'' @ u\<rparr>"
proof -
  let ?key = "idempotencyKey sha256 str u w a"
  let ?dec = "\<lambda>x. x\<lparr>balance := double (balance x - a)\<rparr>"
  let ?inc = "\<lambda>x. x\<lparr>balance := double (balance x + a)\<rparr>"
  from transfer_completed_cases[OF ok fresh] sender recipient
  obtain ws1 ws2 ts where
        u1: "updateWhere (\<lambda>x. userId x = u \<and> balance x = balance X) ?dec (wallets s) = Some ws1"
    and u2: "updateWhere (\<lambda>x. walletNumber x = w) ?inc ws1 = Some ws2"
    and cm: "createMany [transferOutRow ?key u w a now, transferInRow ?key Y X a now]
               (transactions s) = Some ts"
    and s': "s' = \<lparr>wallets = ws2, transactions = ts\<rparr>"
    and rr: "tr_reference r = transferReference now u"
    by auto
  have du: "distinct (map userId (wallets s))" and dn: "distinct (map walletNumber (wallets s))"
    using uniq by (simp_all add: uniqueWallets_def)
  have X: "X \<in> set (wallets s)" "userId X = u" using find_Some_mem[OF sender] by simp_all
  have Y: "Y \<in> set (wallets s)" "walletNumber Y = w" using find_Some_mem[OF recipient] by simp_all
  from cm have refs: "transferReference now u \<noteq> transferReference now (userId Y)"
    by (auto simp: createMany_def transferOutRow_def transferInRow_def split: if_splits)
  then have neq: "userId Y \<noteq> u" by auto
  then have XY: "X \<noteq> Y" using X by auto
  have ts: "ts = transactions s @ [transferOutRow ?key u w a now, transferInRow ?key Y X a now]"
    using cm by (auto simp: createMany_def split: if_splits)
  have ws1: "ws1 = map (\<lambda>x. if userId x = u then ?dec x else x) (wallets s)"
    by (rule updateWhere_unique[OF u1 du]) simp
  have "map walletNumber ws1 = map walletNumber (wallets s)"
    by (rule updateWhere_map_key[OF u1]) simp
  then have dn1: "distinct (map walletNumber ws1)" using dn by simp
  have ws2: "ws2 = map (\<lambda>x. if walletNumber x = w then ?inc x else x) ws1"
    by (rule updateWhere_unique[OF u2 dn1]) simp
  have uniqX: "\<And>x. x \<in> set (wallets s) \<Longrightarrow> userId x = u \<Longrightarrow> x = X"
    using find_unique_key[OF du] sender X(2) by (metis option.inject)
  have uniqY: "\<And>x. x \<in> set (wallets s) \<Longrightarrow> walletNumber x = w \<Longrightarrow> x = Y"
    using find_unique_key[OF dn] recipient Y(2) by (metis option.inject)
  have wX: "walletNumber X \<noteq> w" using uniqY[OF X(1)] XY by blast
  have pointwise: "(if walletNumber (if userId x = u then ?dec x else x) = w
                    then ?inc (if userId x = u then ?dec x else x)
                    else (if userId x = u then ?dec x else x))
                 = (if userId x = u then ?dec x else if walletNumber x = w then ?inc x else x)"
    if "x \<in> set (wallets s)" for x
  proof (cases "userId x = u")
    case True
    then have "x = X" using uniqX[OF that] by simp
    with True wX show ?thesis by simp
  next
    case False
    then show ?thesis by simp
  qed
  have wallets: "ws2 = map (\<lambda>x. if userId x = u then ?dec x
                                 else if walletNumber x = w then ?inc x else x) (wallets s)"
    unfolding ws2 ws1 map_map comp_def
    by (rule map_cong[OF refl]) (rule pointwise)
  have "map userId ws1 = map userId (wallets s)"
    by (rule updateWhere_map_key[OF u1]) simp
  moreover have "map userId ws2 = map userId ws1"
    by (rule updateWhere_map_key[OF u2]) simp
  ultimately have du2: "distinct (map userId ws2)" using du by simp
  have "map walletNumber ws2 = map walletNumber ws1"
    by (rule updateWhere_map_key[OF u2]) simp
  then have dn2: "distinct (map walletNumber ws2)" using dn1 by simp
  have Xin: "?dec X \<in> set ws2"
  proof -
    have "(\<lambda>x. if userId x = u then ?dec x
               else if walletNumber x = w then ?inc x else x) X \<in> set ws2"
      unfolding wallets using X(1) by (rule imageI[of X "set (wallets s)", folded set_map])
    then show ?thesis using X(2) by simp
  qed
  have Yin: "?inc Y \<in> set ws2"
  proof -
    have "(\<lambda>x. if userId x = u then ?dec x
               else if walletNumber x = w then ?inc x else x) Y \<in> set ws2"
      unfolding wallets using Y(1) by (rule imageI[of Y "set (wallets s)", folded set_map])
    then show ?thesis using Y(2) neq by simp
  qed
  have bu: "find (\<lambda>x. userId x = u) ws2 = Some (?dec X)"
    using find_unique_key[OF du2 Xin] X(2) by simp
  have bn: "find (\<lambda>x. walletNumber x = w) ws2 = Some (?inc Y)"
    using find_unique_key[OF dn2 Yin] Y(2) by simp
  have r: "r = \<lparr>tr_status = ''success'', tr_message = ''Transfer completed'',
                  tr_reference = ''txf_'' @ string_of_nat now @ ''_'' @ u\<rparr>"
    using transfer_result_of[OF ok] fresh rr by (auto simp: transferReference_def)
  show ?thesis
    using neq bu bn wallets ts r
    by (simp add: s' balanceOfUser_def balanceOfNumber_def transferOutRow_def transferInRow_def
          transferReference_def)
qed

text \<open>Whole amounts: 100 of 100 are sent, and sender and recipient hold 0 and 100.\<close>

theorem transfer_conservation_witness:
  "uniqueWallets exLedger
   \<and> transfer exHash exStr exLedger ''u1'' ''1000000002'' 100 1000
       = (Inr (projr (fst exFirst)), snd exFirst)
   \<and> tr_message (projr (fst exFirst)) = ''Transfer completed''
   \<and> find (\<lambda>x. userId x = ''u1'') (wallets exLedger) = Some exSender
   \<and> find (\<lambda>x. walletNumber x = ''1000000002'') (wallets exLedger) = Some exRecipient
   \<and> balanceOfUser (snd exFirst) ''u1'' = Some 0
   \<and> balanceOfNumber (snd exFirst) ''1000000002'' = Some 100
   \<and> length (transactions (snd exFirst)) = 2
   \<and> map amount (transactions (snd exFirst)) = [- 100, 100]
   \<and> map t_type (transactions (snd exFirst)) = [''transfer_out'', ''transfer_in'']
   \<and> map t_userId (transactions (snd exFirst)) = [''u1'', ''u2'']"
proof -
  have h1: "uniqueWallets exLedger" by code_simp
  have h2: "transfer exHash exStr exLedger ''u1'' ''1000000002'' 100 1000
              = (Inr (projr (fst exFirst)), snd exFirst)" by code_simp
  have h3: "tr_message (projr (fst exFirst)) = ''Transfer completed''" by code_simp
  have h4: "find (\<lambda>x. userId x = ''u1'') (wallets exLedger) = Some exSender" by code_simp
  have h5: "find (\<lambda>x. walletNumber x = ''1000000002'') (wallets exLedger) = Some exRecipient"
    by code_simp
  have b: "balance exSender = 100" "balance exRecipient = 0" "transactions exLedger = []"
          "userId exRecipient = ''u2''"
    by (simp_all add: exSender_def exRecipient_def exLedger_def)
  have d: "double (100 - 100) = 0" "double (0 + 100) = 100" by code_simp+
  from transfer_conservation[OF h1 h2 h3 h4 h5] b d h1 h2 h3 h4 h5 show ?thesis
    by simp
qed

text \<open>
  The change is not the amount in general. Sending 0.2 (the double nearest to it) from a
  balance of 100 leaves a balance that is not 100 minus the amount. Sending \<open>2^-30\<close> from a
  balance of \<open>2^27\<close> leaves the sender's balance as it was and credits the recipient.
\<close>

theorem transfer_not_exact_counterexample:
  "fst (transfer exHash exStr exLedger ''u1'' ''1000000002'' (double (1 / 5)) 1000)
     = Inr \<lparr>tr_status = ''success'', tr_message = ''Transfer completed'',
            tr_reference = ''txf_1000_u1''\<rparr>
   \<and> balanceOfUser (snd (transfer exHash exStr exLedger ''u1'' ''1000000002'' (double (1 / 5)) 1000))
         ''u1'' \<noteq> Some (100 - double (1 / 5))
   \<and> fst (transfer exHash exStr exLargeLedger ''u1'' ''1000000002'' (1 / 1073741824) 1000)
     = Inr \<lparr>tr_status = ''success'', tr_message = ''Transfer completed'',
            tr_reference = ''txf_1000_u1''\<rparr>
   \<and> balanceOfUser exLargeLedger ''u1'' = Some 134217728
   \<and> balanceOfUser (snd (transfer exHash exStr exLargeLedger ''u1'' ''1000000002''
                            (1 / 1073741824) 1000)) ''u1'' = Some 134217728
   \<and> balanceOfNumber (snd (transfer exHash exStr exLargeLedger ''u1'' ''1000000002''
                              (1 / 1073741824) 1000)) ''1000000002'' = Some (1 / 1073741824)"
  by code_simp

section \<open>Transfer: insufficient funds\<close>

text \<open>
  C5. When the recipient wallet exists and the sender's balance is below the amount, the
  call ends in \<^verbatim>\<open>BadRequestException('Insufficient balance')\<close> and the stored state is
  the one before the call: no balance has changed and no row was created. The amount is
  positive (the check before it rejects any other) or the balance is not negative.
\<close>

theorem transfer_insufficient_balance:
  assumes "0 < a \<or> 0 \<le> balance X"
    and "find (\<lambda>x. walletNumber x = w) (wallets s) = Some Y"
    and "find (\<lambda>x. userId x = u) (wallets s) = Some X"
    and "balance X < a"
  shows "transfer sha256 str s u w a now = (Inl (BadRequestException ''Insufficient balance''), s)"
proof -
  from assms(1,4) have "\<not> a \<le> 0" by auto
  with assms(2,3,4) show ?thesis by (simp add: transfer_def)
qed

theorem transfer_insufficient_balance_witness:
  "(0 < (200::rat) \<or> 0 \<le> balance exSender)
   \<and> find (\<lambda>x. walletNumber x = ''1000000002'') (wallets exLedger) = Some exRecipient
   \<and> find (\<lambda>x. userId x = ''u1'') (wallets exLedger) = Some exSender
   \<and> balance exSender < 200
   \<and> transfer exHash exStr exLedger ''u1'' ''1000000002'' 200 1000
       = (Inl (BadRequestException ''Insufficient balance''), exLedger)"
proof -
  have h1: "0 < (200::rat) \<or> 0 \<le> balance exSender" by simp
  have h2: "find (\<lambda>x. walletNumber x = ''1000000002'') (wallets exLedger) = Some exRecipient"
    by code_simp
  have h3: "find (\<lambda>x. userId x = ''u1'') (wallets exLedger) = Some exSender" by code_simp
  have h4: "balance exSender < 200" by (simp add: exSender_def)
  from transfer_insufficient_balance[OF h1 h2 h3 h4] h1 h2 h3 h4 show ?thesis by simp
qed

section \<open>Deposit initiation: a failing gateway\<close>

lemma getOrCreateWallet_transactions:
  "transactions (snd (getOrCreateWallet s uid src)) = transactions s"
  by (simp add: getOrCreateWallet_def split: option.split prod.split)

lemma getOrCreateWallet_existing:
  "find (\<lambda>w. userId w = uid) (wallets s) = Some w \<Longrightarrow> getOrCreateWallet s uid src = (Inr w, s)"
  by (simp add: getOrCreateWallet_def)

lemma getOrCreateWallet_error:
  "getOrCreateWallet s uid src = (Inl e, s1) \<Longrightarrow>
     e = BadRequestException ''Failed to generate unique wallet number''"
  by (simp add: getOrCreateWallet_def split: option.splits prod.splits if_splits)

text \<open>
  C7 (amended). When the call to the gateway throws, \<^verbatim>\<open>initiateDeposit\<close> ends in an
  error and stores no transaction row: the state is the one \<^verbatim>\<open>getOrCreateWallet\<close> left.
  The error is \<^verbatim>\<open>BadRequestException('Failed to initialize payment')\<close>, or the one of the
  wallet number allocation, which comes before the gateway is called. When the user
  already had a wallet the state is unchanged. Whenever the wallet step succeeds the
  error is the first of the two.
\<close>

theorem initiateDeposit_gateway_failure:
  assumes "gateway (initializeBody appUrl uid amt email now) = None"
  shows "snd (initiateDeposit gateway appUrl s uid amt email src now)
           = snd (getOrCreateWallet s uid src)
       \<and> transactions (snd (initiateDeposit gateway appUrl s uid amt email src now))
           = transactions s
       \<and> (fst (initiateDeposit gateway appUrl s uid amt email src now)
             = Inl (BadRequestException ''Failed to initialize payment'')
          \<or> fst (initiateDeposit gateway appUrl s uid amt email src now)
             = Inl (BadRequestException ''Failed to generate unique wallet number''))
       \<and> (find (\<lambda>w. userId w = uid) (wallets s) \<noteq> None \<longrightarrow>
            initiateDeposit gateway appUrl s uid amt email src now
              = (Inl (BadRequestException ''Failed to initialize payment''), s))
       \<and> (\<not> isl (fst (getOrCreateWallet s uid src)) \<longrightarrow>
            fst (initiateDeposit gateway appUrl s uid amt email src now)
              = Inl (BadRequestException ''Failed to initialize payment''))"
proof -
  obtain r s1 where g: "getOrCreateWallet s uid src = (r, s1)"
    by (cases "getOrCreateWallet s uid src")
  have t: "transactions s1 = transactions s"
    using getOrCreateWallet_transactions[of s uid src] g by simp
  show ?thesis
  proof (cases r)
    case (Inl e)
    with g getOrCreateWallet_error[of s uid src e s1]
    have e: "e = BadRequestException ''Failed to generate unique wallet number''" by simp
    have "find (\<lambda>w. userId w = uid) (wallets s) = None"
      using g Inl by (cases "find (\<lambda>w. userId w = uid) (wallets s)") (auto simp: getOrCreateWallet_existing)
    with g Inl e t show ?thesis by (simp add: initiateDeposit_def)
  next
    case (Inr w)
    have "initiateDeposit gateway appUrl s uid amt email src now
           = (Inl (BadRequestException ''Failed to initialize payment''), s1)"
      using g Inr assms by (simp add: initiateDeposit_def)
    moreover have "find (\<lambda>w. userId w = uid) (wallets s) \<noteq> None \<longrightarrow> s1 = s"
      using g by (auto simp: getOrCreateWallet_existing)
    ultimately show ?thesis using g t by simp
  qed
qed

text \<open>For a user who has a wallet, the failed call leaves the state as it was.\<close>

theorem initiateDeposit_gateway_failure_witness:
  "(\<lambda>rq. None :: init_response option) (initializeBody ''cb'' ''u1'' 5000 ''a@b.c'' 1000) = None
   \<and> initiateDeposit (\<lambda>rq. None) ''cb'' exLedger ''u1'' 5000 ''a@b.c'' (\<lambda>k. (123, 7)) 1000
       = (Inl (BadRequestException ''Failed to initialize payment''), exLedger)"
proof -
  have h: "(\<lambda>rq. None :: init_response option) (initializeBody ''cb'' ''u1'' 5000 ''a@b.c'' 1000)
             = None" by simp
  have w: "find (\<lambda>w. userId w = ''u1'') (wallets exLedger) \<noteq> None" by code_simp
  from initiateDeposit_gateway_failure[of "\<lambda>rq. None" "''cb''" "''u1''" 5000 "''a@b.c''" 1000
         exLedger "\<lambda>k. (123, 7)", OF h] w
  show ?thesis by simp
qed

text \<open>
  For a user without a wallet the failed call has written: the wallet that
  \<^verbatim>\<open>getOrCreateWallet\<close> created before the gateway was called stays.
\<close>

theorem initiateDeposit_writes_wallet_counterexample:
  "initiateDeposit (\<lambda>rq. None) ''cb'' exEmpty ''u1'' 5000 ''a@b.c'' (\<lambda>k. (123, 7)) 1000
     = (Inl (BadRequestException ''Failed to initialize payment''),
        \<lparr>wallets = [\<lparr>userId = ''u1'', walletNumber = ''12307'', balance = 0\<rparr>],
         transactions = []\<rparr>)
   \<and> snd (initiateDeposit (\<lambda>rq. None) ''cb'' exEmpty ''u1'' 5000 ''a@b.c''
             (\<lambda>k. (123, 7)) 1000) \<noteq> exEmpty"
  by code_simp

section \<open>Webhook: signature check\<close>

text \<open>
  Given the raw body, the controller hands the event to \<^verbatim>\<open>handleWebhook\<close> exactly when
  the header equals the digest of that raw body under the service's secret, the digest
  being a non-empty string.
\<close>

lemma paystackWebhook_signature_check:
  assumes "hmac (webhookSecret svc) (case raw of None \<Rightarrow> [] | Some b \<Rightarrow> b) \<noteq> []"
  shows "(signature = Some (hmac (webhookSecret svc) (case raw of None \<Rightarrow> [] | Some b \<Rightarrow> b)) \<longrightarrow>
            paystackWebhook hmac parse svc dflt s signature raw now
              = (case parse (case raw of None \<Rightarrow> [] | Some b \<Rightarrow> b) of
                   None \<Rightarrow> (Inl SyntaxError, s)
                 | Some (event, d) \<Rightarrow> handleWebhook dflt s event d now))
       \<and> (signature \<noteq> Some (hmac (webhookSecret svc) (case raw of None \<Rightarrow> [] | Some b \<Rightarrow> b)) \<longrightarrow>
            snd (paystackWebhook hmac parse svc dflt s signature raw now) = s
            \<and> (fst (paystackWebhook hmac parse svc dflt s signature raw now)
                  = Inl (BadRequestException ''No signature header'')
               \<or> fst (paystackWebhook hmac parse svc dflt s signature raw now)
                  = Inl (BadRequestException ''Invalid signature'')))"
  using assms
  by (cases signature) (auto simp: paystackWebhook_def verifyPaystackSignature_def)

text \<open>
  As the application is started, the raw body is absent and the digest is taken of the
  empty string: a header that is the digest of the delivered body is rejected whenever
  that digest differs from the digest of the empty string.
\<close>

lemma webhookRoute_rejects_signed_body:
  assumes "hmac (webhookSecret svc) body \<noteq> hmac (webhookSecret svc) []"
    and "hmac (webhookSecret svc) body \<noteq> []"
  shows "webhookRoute hmac parse svc dflt s (Some (hmac (webhookSecret svc) body)) body now
           = (Inl (BadRequestException ''Invalid signature''), s)"
  using assms
  by (simp add: webhookRoute_def requestRawBody_def rawBodyOption_def paystackWebhook_def
        verifyPaystackSignature_def)

text \<open>
  C8. A webhook is accepted exactly when its signature header equals the HMAC-SHA-512
  digest of the raw request body under the shared secret. The route does not do so. The
  body \<^verbatim>\<open>E\<close> is a \<^verbatim>\<open>charge.success\<close> event for the pending example deposit, and the
  header is the digest of \<^verbatim>\<open>E\<close> under the secret \<^verbatim>\<open>sk\<close>: the request is rejected with
  \<^verbatim>\<open>Invalid signature\<close> and the deposit stays pending. With the digest of the empty
  string as header the same request passes the check and fails when the empty string is
  parsed.
\<close>

theorem webhook_signed_body_rejected:
  "exParse ''E'' = Some (''charge.success'', exEvent 5000)
   \<and> webhookSecret (constructor ''sk'') = ''sk''
   \<and> webhookRoute exHmac exParse (constructor ''sk'') ''wn'' exPending
         (Some (exHmac ''sk'' ''E'')) ''E'' 2000
       = (Inl (BadRequestException ''Invalid signature''), exPending)
   \<and> statusOf exPending ''dep_1000_u1'' = Some ''pending''
   \<and> webhookRoute exHmac exParse (constructor ''sk'') ''wn'' exPending
         (Some (exHmac ''sk'' [])) ''E'' 2000
       = (Inl SyntaxError, exPending)"
  by code_simp

section \<open>Balances stay non-negative\<close>

lemma upsertWallet_nonneg:
  assumes "upsertWallet dflt uid amt ws = Some ws'" and "0 \<le> amt"
    and "list_all (\<lambda>w. 0 \<le> balance w) ws"
  shows "list_all (\<lambda>w. 0 \<le> balance w) ws'"
proof (cases "updateWhere (\<lambda>w. userId w = uid) (\<lambda>w. w\<lparr>balance := double (balance w + amt)\<rparr>) ws")
  case None
  with assms show ?thesis by (auto simp: upsertWallet_def split: if_splits)
next
  case (Some zs)
  with assms(1) have "ws' = zs" by (simp add: upsertWallet_def)
  with Some show ?thesis
    using updateWhere_list_all[OF Some assms(3)] assms(2) by (simp add: double_nonneg)
qed

lemma getOrCreateWallet_nonneg:
  assumes "balancesNonneg s"
  shows "balancesNonneg (snd (getOrCreateWallet s uid src))"
  using assms
  by (simp add: getOrCreateWallet_def balancesNonneg_def split: option.split prod.split)

lemma initiateDeposit_wallets:
  "wallets (snd (initiateDeposit gateway appUrl s uid amt email src now))
     = wallets (snd (getOrCreateWallet s uid src))"
proof -
  obtain r s1 where g: "getOrCreateWallet s uid src = (r, s1)"
    by (cases "getOrCreateWallet s uid src")
  then show ?thesis
    by (simp add: initiateDeposit_def split: sum.split option.split)
qed

lemma initiateDeposit_nonneg:
  assumes "balancesNonneg s"
  shows "balancesNonneg (snd (initiateDeposit gateway appUrl s uid amt email src now))"
  using getOrCreateWallet_nonneg[OF assms, of uid src]
  by (simp add: balancesNonneg_def initiateDeposit_wallets)

lemma webhookTx_nonneg:
  assumes "webhookTx dflt s tr d ok now = Inr s'" and "0 \<le> wd_amount d" and "balancesNonneg s"
  shows "balancesNonneg s'"
proof (cases ok)
  case True
  with assms(1) obtain ws where
    "upsertWallet dflt (t_userId tr) (double (wd_amount d / 100)) (wallets s) = Some ws"
    "wallets s' = ws"
    by (auto simp: webhookTx_def split: option.splits)
  with upsertWallet_nonneg[of dflt "t_userId tr" "double (wd_amount d / 100)" "wallets s" ws]
    double_nonneg[of "wd_amount d / 100"] assms(2,3)
  show ?thesis by (simp add: balancesNonneg_def)
next
  case False
  with assms(1) have "wallets s' = wallets s"
    by (auto simp: webhookTx_def split: option.splits)
  with assms(3) show ?thesis by (simp add: balancesNonneg_def)
qed

lemma handleWebhook_nonneg:
  assumes "0 \<le> wd_amount d" and "balancesNonneg s"
  shows "balancesNonneg (snd (handleWebhook dflt s event d now))"
proof (cases "\<not> startsWith event ''charge.''")
  case True
  with assms show ?thesis by (simp add: handleWebhook_def)
next
  case charge: False
  show ?thesis
  proof (cases "find (\<lambda>t. reference t = wd_reference d) (transactions s)")
    case None
    with charge assms show ?thesis by (simp add: handleWebhook_def)
  next
    case (Some tr)
    show ?thesis
    proof (cases "status tr = ''success'' \<or> status tr = ''failed''")
      case True
      with charge Some assms show ?thesis by (simp add: handleWebhook_def)
    next
      case False
      show ?thesis
      proof (cases "webhookTx dflt s tr d
                      (event = ''charge.success'' \<and> wd_status d = ''success'') now")
        case (Inl e)
        with charge Some False assms show ?thesis by (simp add: handleWebhook_def)
      next
        case (Inr s')
        with charge Some False webhookTx_nonneg[OF Inr assms]
        show ?thesis by (simp add: handleWebhook_def)
      qed
    qed
  qed
qed

lemma verifyCatch_wallets: "wallets (snd (verifyCatch s ref tr code now)) = wallets s"
  by (simp add: verifyCatch_def split: option.split)

lemma verifyTx_nonneg:
  assumes "verifyTx dflt s ref tr d now = Inr s'" and "0 \<le> vd_amount d" and "balancesNonneg s"
  shows "balancesNonneg s'"
proof -
  from assms(1) obtain ws where
    "upsertWallet dflt (t_userId tr) (double (vd_amount d / 100)) (wallets s) = Some ws"
    "wallets s' = ws"
    by (auto simp: verifyTx_def split: option.splits)
  with upsertWallet_nonneg[of dflt "t_userId tr" "double (vd_amount d / 100)" "wallets s" ws]
    double_nonneg[of "vd_amount d / 100"] assms(2,3)
  show ?thesis by (simp add: balancesNonneg_def)
qed

lemma verifyDepositWithPaystack_nonneg:
  assumes "gatewayAmountNonneg (VerifyDepositWithPaystack ref resp now)" and "balancesNonneg s"
  shows "balancesNonneg (snd (verifyDepositWithPaystack dflt s ref resp now))"
proof (cases "find (\<lambda>t. reference t = ref) (transactions s)")
  case None
  with assms show ?thesis by (simp add: verifyDepositWithPaystack_def)
next
  case (Some tr)
  show ?thesis
  proof (cases resp)
    case (VerifyThrows code)
    with Some assms(2) show ?thesis
      by (simp add: verifyDepositWithPaystack_def balancesNonneg_def verifyCatch_wallets)
  next
    case (VerifyOk d)
    with assms(1) have amt: "0 \<le> vd_amount d" by simp
    show ?thesis
    proof (cases "status tr = ''success''")
      case True
      with Some VerifyOk assms(2) show ?thesis by (simp add: verifyDepositWithPaystack_def)
    next
      case notdone: False
      show ?thesis
      proof (cases "vd_status d = ''success''")
        case True
        show ?thesis
        proof (cases "verifyTx dflt s ref tr d now")
          case (Inl e)
          with Some VerifyOk notdone True assms(2) show ?thesis
            by (simp add: verifyDepositWithPaystack_def balancesNonneg_def verifyCatch_wallets)
        next
          case (Inr s')
          with Some VerifyOk notdone True verifyTx_nonneg[OF Inr amt assms(2)] show ?thesis
            by (simp add: verifyDepositWithPaystack_def)
        qed
      next
        case False
        with Some VerifyOk notdone assms(2) show ?thesis
          by (simp add: verifyDepositWithPaystack_def balancesNonneg_def verifyCatch_wallets
                split: option.split)
      qed
    qed
  qed
qed

lemma transferTx_nonneg:
  assumes "transferTx key s u w a now Y X = Inr (out, s')" and "0 < a" and "balancesNonneg s"
  shows "balancesNonneg s'"
proof (cases out)
  case (Duplicate ref)
  with assms(1) have "s' = s"
    by (simp add: transferTx_def split: option.splits if_splits)
  with assms(3) show ?thesis by simp
next
  case (Completed r1 r2)
  with assms(1) have "transferTx key s u w a now Y X = Inr (Completed r1 r2, s')" by simp
  from transferTx_Completed[OF this] obtain F ws1 ws2 ts where all:
    "find (\<lambda>t. metadataPath t ''idempotency_key'' = Some key \<and> status t = ''success'')
        (transactions s) = None
    \<and> find (\<lambda>x. userId x = u) (wallets s) = Some F
    \<and> a \<le> balance F
    \<and> updateWhere (\<lambda>x. userId x = u \<and> balance x = balance F)
         (\<lambda>x. x\<lparr>balance := double (balance x - a)\<rparr>) (wallets s) = Some ws1
    \<and> updateWhere (\<lambda>x. walletNumber x = w) (\<lambda>x. x\<lparr>balance := double (balance x + a)\<rparr>) ws1 = Some ws2
    \<and> createMany [transferOutRow key u w a now, transferInRow key Y X a now] (transactions s) = Some ts
    \<and> s' = \<lparr>wallets = ws2, transactions = ts\<rparr>
    \<and> r1 = transferReference now u"
    by (elim exE)
  then have bal: "a \<le> balance F"
    and u1: "updateWhere (\<lambda>x. userId x = u \<and> balance x = balance F)
               (\<lambda>x. x\<lparr>balance := double (balance x - a)\<rparr>) (wallets s) = Some ws1"
    and u2: "updateWhere (\<lambda>x. walletNumber x = w) (\<lambda>x. x\<lparr>balance := double (balance x + a)\<rparr>) ws1
               = Some ws2"
    and s': "s' = \<lparr>wallets = ws2, transactions = ts\<rparr>"
    by simp_all
  have n0: "list_all (\<lambda>w. 0 \<le> balance w) (wallets s)"
    using assms(3) by (simp add: balancesNonneg_def)
  have n1: "list_all (\<lambda>w. 0 \<le> balance w) ws1"
    by (rule updateWhere_list_all[OF u1 n0]) (use bal in \<open>simp add: double_nonneg\<close>)
  have n2: "list_all (\<lambda>w. 0 \<le> balance w) ws2"
    by (rule updateWhere_list_all[OF u2 n1]) (use assms(2) in \<open>simp add: double_nonneg\<close>)
  then show ?thesis by (simp add: s' balancesNonneg_def)
qed

lemma transfer_nonneg:
  assumes "balancesNonneg s"
  shows "balancesNonneg (snd (transfer sha256 str s u w a now))"
proof (cases "a \<le> 0")
  case True
  with assms show ?thesis by (simp add: transfer_def)
next
  case pos: False
  show ?thesis
  proof (cases "find (\<lambda>x. walletNumber x = w) (wallets s)")
    case None
    with pos assms show ?thesis by (simp add: transfer_def)
  next
    case Y: (Some Y)
    show ?thesis
    proof (cases "find (\<lambda>x. userId x = u) (wallets s)")
      case None
      with pos Y assms show ?thesis by (simp add: transfer_def)
    next
      case X: (Some X)
      show ?thesis
      proof (cases "balance X < a")
        case True
        with pos Y X assms show ?thesis by (simp add: transfer_def)
      next
        case False
        show ?thesis
        proof (cases "transferTx (idempotencyKey sha256 str u w a) s u w a now Y X")
          case (Inl e)
          with pos Y X False assms show ?thesis by (simp add: transfer_def)
        next
          case (Inr p)
          obtain out s' where p: "p = (out, s')" by (cases p)
          from pos have "0 < a" by simp
          from transferTx_nonneg[OF Inr[unfolded p] this assms] have "balancesNonneg s'" .
          with pos Y X False Inr p show ?thesis
            by (cases out) (simp_all add: transfer_def)
        qed
      qed
    qed
  qed
qed

lemma step_nonneg:
  assumes "gatewayAmountNonneg op" and "balancesNonneg s"
  shows "balancesNonneg (step sha256 str appUrl dflt s op)"
proof (cases op)
  case (GetOrCreateWallet uid src)
  with assms show ?thesis by (simp add: getOrCreateWallet_nonneg)
next
  case (InitiateDeposit gateway uid amt email src now)
  with assms show ?thesis by (simp add: initiateDeposit_nonneg)
next
  case (HandleWebhook event d now)
  with assms show ?thesis by (simp add: handleWebhook_nonneg)
next
  case (VerifyDepositWithPaystack ref resp now)
  with assms show ?thesis by (simp add: verifyDepositWithPaystack_nonneg)
next
  case (Transfer u w a now)
  with assms show ?thesis by (simp add: transfer_nonneg)
qed

text \<open>
  C2 (amended). Starting from a state in which every balance is at least zero, any
  sequence of \<^verbatim>\<open>getOrCreateWallet\<close>, \<^verbatim>\<open>initiateDeposit\<close>, \<^verbatim>\<open>handleWebhook\<close>,
  \<^verbatim>\<open>verifyDepositWithPaystack\<close> and \<^verbatim>\<open>transfer\<close> calls leaves every balance at least
  zero, provided each amount the gateway reports (in a webhook event or in a verification
  answer) is at least zero. The only check in the code is the one before the debit in
  \<^verbatim>\<open>transfer\<close>; the credits add the reported amount as it comes.
\<close>

theorem balances_stay_nonneg:
  assumes "balancesNonneg s" and "list_all gatewayAmountNonneg ops"
  shows "balancesNonneg (run sha256 str appUrl dflt s ops)"
  using assms unfolding run_def
proof (induction ops arbitrary: s)
  case Nil
  then show ?case by simp
next
  case (Cons op ops)
  from Cons.prems have "balancesNonneg (step sha256 str appUrl dflt s op)"
    by (simp add: step_nonneg)
  with Cons.IH[of "step sha256 str appUrl dflt s op"] Cons.prems(2) show ?case by simp
qed

text \<open>A run of four calls on the example ledger.\<close>

theorem balances_stay_nonneg_witness:
  "balancesNonneg exLedger \<and> list_all gatewayAmountNonneg exOps
   \<and> balancesNonneg (run exHash exStr ''cb'' ''wn'' exLedger exOps)"
proof -
  have h1: "balancesNonneg exLedger" by code_simp
  have h2: "list_all gatewayAmountNonneg exOps"
    by (simp add: exOps_def exVerifyData_def)
  from balances_stay_nonneg[OF h1 h2] h1 h2 show ?thesis by simp
qed

text \<open>
  Without the proviso the property fails: a \<^verbatim>\<open>charge.success\<close> event that reports the
  amount \<open>-20000\<close> for a pending deposit takes the owner's balance from 100 to \<open>-100\<close>.
\<close>

theorem balances_negative_counterexample:
  "balancesNonneg exPending
   \<and> \<not> balancesNonneg
         (step exHash exStr ''cb'' ''wn'' exPending
            (HandleWebhook ''charge.success'' (exEvent (- 20000)) 2000))"
  by code_simp

section \<open>Terminal transactions\<close>

text \<open>
  \<^verbatim>\<open>handleWebhook\<close> leaves a transaction that is \<^verbatim>\<open>success\<close> or \<^verbatim>\<open>failed\<close> alone and
  answers \<^verbatim>\<open>Already processed\<close>.
\<close>

lemma handleWebhook_terminal:
  assumes "startsWith event ''charge.''"
    and "find (\<lambda>t. reference t = wd_reference d) (transactions s) = Some tr"
    and "status tr = ''success'' \<or> status tr = ''failed''"
  shows "handleWebhook dflt s event d now
           = (Inr \<lparr>wr_status = True, wr_message = Some ''Already processed''\<rparr>, s)"
  using assms by (simp add: handleWebhook_def)

text \<open>
  C1. A transaction that has reached \<^verbatim>\<open>success\<close> or \<^verbatim>\<open>failed\<close> keeps its status, and
  its wallet is not credited again. \<^verbatim>\<open>verifyDepositWithPaystack\<close> does not keep to it.
  On the settled example deposit (status \<^verbatim>\<open>success\<close>, wallet credited to 150) a gateway
  answer 404 sets the status to \<^verbatim>\<open>failed\<close>, the credit staying. On the failed example
  deposit (status \<^verbatim>\<open>failed\<close>, balance 100) a gateway answer \<^verbatim>\<open>success\<close> sets the
  status to \<^verbatim>\<open>success\<close> and credits the wallet.
\<close>

theorem verify_overwrites_terminal_status:
  "statusOf exSettled ''dep_1000_u1'' = Some ''success''
   \<and> balanceOfUser exSettled ''u1'' = Some 150
   \<and> statusOf (snd (verifyDepositWithPaystack ''wn'' exSettled ''dep_1000_u1''
                       (VerifyThrows (Some 404)) 3000)) ''dep_1000_u1'' = Some ''failed''
   \<and> balanceOfUser (snd (verifyDepositWithPaystack ''wn'' exSettled ''dep_1000_u1''
                            (VerifyThrows (Some 404)) 3000)) ''u1'' = Some 150
   \<and> statusOf exFailed ''dep_1000_u1'' = Some ''failed''
   \<and> balanceOfUser exFailed ''u1'' = Some 100
   \<and> statusOf (snd (verifyDepositWithPaystack ''wn'' exFailed ''dep_1000_u1''
                       (VerifyOk exVerifyData) 3000)) ''dep_1000_u1'' = Some ''success''
   \<and> balanceOfUser (snd (verifyDepositWithPaystack ''wn'' exFailed ''dep_1000_u1''
                            (VerifyOk exVerifyData) 3000)) ''u1'' = Some 150"
  by code_simp

section \<open>Transfer: repeated calls\<close>

text \<open>
  Once a \<^verbatim>\<open>success\<close> row carries the idempotency key of a call, the call changes nothing:
  it answers with the reference of the first such row or it fails.
\<close>

lemma transfer_replay:
  assumes "find (\<lambda>t. metadataPath t ''idempotency_key''
                        = Some (idempotencyKey sha256 str u w a) \<and> status t = ''success'')
             (transactions s) = Some t"
  shows "snd (transfer sha256 str s u w a now) = s
       \<and> (fst (transfer sha256 str s u w a now)
            = Inr \<lparr>tr_status = ''success'', tr_message = ''Transfer already processed'',
                   tr_reference = reference t\<rparr>
          \<or> isl (fst (transfer sha256 str s u w a now)))"
proof -
  have tx: "transferTx (idempotencyKey sha256 str u w a) s u w a now Y X
              = Inr (Duplicate (reference t), s)" for X Y
    using assms by (simp add: transferTx_def)
  show ?thesis
    by (simp add: transfer_def tx split: option.split)
qed

text \<open>
  C4. Two \<^verbatim>\<open>transfer\<close> calls with the same sender, wallet number and amount both answer
  \<^verbatim>\<open>success\<close>, the second with the reference of the first. On the example ledger the
  sender holds 100 and sends 100: the first call completes with reference
  \<^verbatim>\<open>txf_1000_u1\<close>; the second is stopped by the balance check that precedes the
  duplicate lookup and ends in \<^verbatim>\<open>BadRequestException('Insufficient balance')\<close>. The
  state after the second call is the state after the first.
\<close>

theorem transfer_retry_rejected:
  "fst (transfer exHash exStr exLedger ''u1'' ''1000000002'' 100 1000)
     = Inr \<lparr>tr_status = ''success'', tr_message = ''Transfer completed'',
            tr_reference = ''txf_1000_u1''\<rparr>
   \<and> transfer exHash exStr
         (snd (transfer exHash exStr exLedger ''u1'' ''1000000002'' 100 1000))
         ''u1'' ''1000000002'' 100 1001
     = (Inl (BadRequestException ''Insufficient balance''),
        snd (transfer exHash exStr exLedger ''u1'' ''1000000002'' 100 1000))"
  by code_simp

text \<open>
  C10. After a transfer has succeeded, every later call with the same three parameters
  answers with the original reference and moves no money. On the example ledger the
  sender holds 100 and sends 60, leaving 40; the same call at a later time moves no
  money but ends in \<^verbatim>\<open>BadRequestException('Insufficient balance')\<close> instead of the
  reference \<^verbatim>\<open>txf_1000_u1\<close>.
\<close>

theorem transfer_later_replay_rejected:
  "fst (transfer exHash exStr exLedger ''u1'' ''1000000002'' 60 1000)
     = Inr \<lparr>tr_status = ''success'', tr_message = ''Transfer completed'',
            tr_reference = ''txf_1000_u1''\<rparr>
   \<and> balanceOfUser (snd (transfer exHash exStr exLedger ''u1'' ''1000000002'' 60 1000)) ''u1''
     = Some 40
   \<and> fst (transfer exHash exStr
              (snd (transfer exHash exStr exLedger ''u1'' ''1000000002'' 60 1000))
              ''u1'' ''1000000002'' 60 9000)
     = Inl (BadRequestException ''Insufficient balance'')"
  by code_simp

section \<open>Transfer: references\<close>

text \<open>
  C9. The two references of a transfer differ from each other and from every stored
  reference, so the unique index on \<^verbatim>\<open>reference\<close> never rejects the insert. A transfer
  to the sender's own wallet number passes every check, builds the same reference
  \<^verbatim>\<open>txf_1000_u1\<close> twice, and the insert is rejected; the transaction is rolled back.
  So is a second transfer of the same sender within the same millisecond as a completed
  one: its sender reference is already stored.
\<close>

theorem self_transfer_reference_collision:
  "find (\<lambda>w. walletNumber w = ''1000000001'') (wallets exLedger) = Some exSender
   \<and> transferReference 1000 ''u1'' = transferReference 1000 (userId exSender)
   \<and> transfer exHash exStr exLedger ''u1'' ''1000000001'' 50 1000
       = (Inl UniqueConstraintViolation, exLedger)
   \<and> fst (transfer exHash exStr exLedger ''u1'' ''1000000002'' 60 1000)
       = Inr \<lparr>tr_status = ''success'', tr_message = ''Transfer completed'',
              tr_reference = ''txf_1000_u1''\<rparr>
   \<and> transfer exHash exStr
         (snd (transfer exHash exStr exLedger ''u1'' ''1000000002'' 60 1000))
         ''u1'' ''1000000002'' 30 1000
       = (Inl UniqueConstraintViolation,
          snd (transfer exHash exStr exLedger ''u1'' ''1000000002'' 60 1000))"
  by code_simp

section \<open>Money\<close>











end
